theory Spec2Isabelle
  imports Complex_Main "HOL-Library.Log_Nat"
begin

section \<open>The SrTiO3/LaTiO3 interface cell of the abTEM notebook\<close>

text \<open>
  The cell of \<^verbatim>\<open>abTEM/atomic_models_with_ase.ipynb\<close> that builds the interface:
  \<^verbatim>\<open>
  sto_lto = repeated_srtio3.copy()
  mask = sto_lto.symbols == "Sr"
  mask = mask * (sto_lto.positions[:, 1] < 7.5)
  sto_lto.numbers[mask] = 57
  \<close>
  The names of the notebook refer to objects of the kernel; two names may refer to the
  same object. The store below maps object identities to \<open>Atoms\<close> objects, so that
  the copy in the first line and the in-place assignment of the last line are both
  visible.
\<close>

text \<open>
  An \<open>Atoms\<close> object as the cell reads it: the array of atomic numbers, the
  \<open>n \<times> 3\<close> array of positions (a row is \<open>(x, y, z)\<close>), the three cell vectors
  and the periodicity flags. Coordinates are idealised as real numbers.
\<close>

record atoms =
  numbers :: "nat list"
  positions :: "(real \<times> real \<times> real) list"
  cell :: "(real \<times> real \<times> real) list"
  pbc :: "bool list"

record store =
  objs :: "nat \<Rightarrow> atoms"
  next_id :: nat

datatype np_error =
  BroadcastError  \<comment> \<open>operands could not be broadcast together\<close>
| MaskLengthError \<comment> \<open>boolean index did not match the indexed array\<close>

text \<open>
  The table of chemical symbols by atomic number (index 0 is the placeholder
  \<open>X\<close>), through which an \<open>Atoms\<close> object shows its atomic numbers as symbols.
\<close>

definition chemical_symbols :: "string list" where
  "chemical_symbols =
    [''X'', ''H'', ''He'', ''Li'', ''Be'', ''B'', ''C'', ''N'', ''O'', ''F'', ''Ne'',
     ''Na'', ''Mg'', ''Al'', ''Si'', ''P'', ''S'', ''Cl'', ''Ar'',
     ''K'', ''Ca'', ''Sc'', ''Ti'', ''V'', ''Cr'', ''Mn'', ''Fe'', ''Co'', ''Ni'', ''Cu'',
     ''Zn'', ''Ga'', ''Ge'', ''As'', ''Se'', ''Br'', ''Kr'',
     ''Rb'', ''Sr'', ''Y'', ''Zr'', ''Nb'', ''Mo'', ''Tc'', ''Ru'', ''Rh'', ''Pd'', ''Ag'',
     ''Cd'', ''In'', ''Sn'', ''Sb'', ''Te'', ''I'', ''Xe'',
     ''Cs'', ''Ba'', ''La'', ''Ce'', ''Pr'', ''Nd'', ''Pm'', ''Sm'', ''Eu'', ''Gd'', ''Tb'',
     ''Dy'', ''Ho'', ''Er'', ''Tm'', ''Yb'', ''Lu'',
     ''Hf'', ''Ta'', ''W'', ''Re'', ''Os'', ''Ir'', ''Pt'', ''Au'', ''Hg'', ''Tl'', ''Pb'',
     ''Bi'', ''Po'', ''At'', ''Rn'',
     ''Fr'', ''Ra'', ''Ac'', ''Th'', ''Pa'', ''U'', ''Np'', ''Pu'', ''Am'', ''Cm'', ''Bk'',
     ''Cf'', ''Es'', ''Fm'', ''Md'', ''No'', ''Lr'',
     ''Rf'', ''Db'', ''Sg'', ''Bh'', ''Hs'', ''Mt'', ''Ds'', ''Rg'', ''Cn'', ''Nh'', ''Fl'',
     ''Mc'', ''Lv'', ''Ts'', ''Og'']"

text \<open>The symbol of an atom, and the atomic number a symbol stands for.\<close>

definition symbol_of :: "nat \<Rightarrow> string" where
  "symbol_of z = chemical_symbols ! z"

fun index_of :: "string \<Rightarrow> string list \<Rightarrow> nat \<Rightarrow> nat option" where
  "index_of s [] i = None"
| "index_of s (x # xs) i = (if x = s then Some i else index_of s xs (Suc i))"

definition atomic_number :: "string \<Rightarrow> nat option" where
  "atomic_number s = index_of s chemical_symbols 0"

text \<open>
  \<open>a.copy()\<close>: a new object whose arrays are copies of those of \<open>a\<close>; nothing is
  shared with the original.
\<close>

definition atoms_copy :: "store \<Rightarrow> nat \<Rightarrow> nat \<times> store" where
  "atoms_copy st a =
     (next_id st, \<lparr>objs = (objs st)(next_id st := objs st a), next_id = Suc (next_id st)\<rparr>)"

text \<open>
  \<open>a.symbols == s\<close> for a string naming one element: the symbols are a view of the
  atomic numbers, the string is turned into its atomic number, and the two arrays of
  numbers are compared elementwise. (For a string that names no element the library
  answers the single value \<open>False\<close>; the cell passes \<open>"Sr"\<close>.)
\<close>

definition symbols_eq :: "atoms \<Rightarrow> string \<Rightarrow> bool list" where
  "symbols_eq a s = map (\<lambda>z. Some z = atomic_number s) (numbers a)"

text \<open>\<open>positions[:, 1]\<close>: the column of y-coordinates.\<close>

definition column1 :: "(real \<times> real \<times> real) list \<Rightarrow> real list" where
  "column1 ps = map (\<lambda>p. fst (snd p)) ps"

text \<open>\<open>xs < c\<close>: elementwise comparison of an array with a scalar.\<close>

definition np_less :: "real list \<Rightarrow> real \<Rightarrow> bool list" where
  "np_less xs c = map (\<lambda>x. x < c) xs"

text \<open>
  \<open>m1 * m2\<close> on two boolean arrays of one dimension: the elementwise conjunction; arrays
  of different lengths do not broadcast (neither operand of the cell is a scalar).
\<close>

definition np_mul :: "bool list \<Rightarrow> bool list \<Rightarrow> np_error + bool list" where
  "np_mul m1 m2 =
     (if length m1 = length m2 then Inr (map (\<lambda>(a, b). a \<and> b) (zip m1 m2))
      else Inl BroadcastError)"

text \<open>\<open>xs[msk] = v\<close>: assignment through a boolean mask, in place.\<close>

definition setitem_mask :: "nat list \<Rightarrow> bool list \<Rightarrow> nat \<Rightarrow> np_error + nat list" where
  "setitem_mask xs msk v =
     (if length msk = length xs then Inr (map (\<lambda>(m, x). if m then v else x) (zip msk xs))
      else Inl MaskLengthError)"

text \<open>
  The cell. Its input is the store and the object \<open>repeated_srtio3\<close> names; its result
  is the object \<open>sto_lto\<close> names and the store after the cell.
\<close>

definition make_sto_lto :: "store \<Rightarrow> nat \<Rightarrow> np_error + (nat \<times> store)" where
  "make_sto_lto st repeated_srtio3 =
     (let (sto_lto, st1) = atoms_copy st repeated_srtio3;
          mask = symbols_eq (objs st1 sto_lto) ''Sr''
      in case np_mul mask (np_less (column1 (positions (objs st1 sto_lto))) 7.5) of
           Inl e \<Rightarrow> Inl e
         | Inr mask' \<Rightarrow>
             (case setitem_mask (numbers (objs st1 sto_lto)) mask' 57 of
                Inl e \<Rightarrow> Inl e
              | Inr ns \<Rightarrow>
                  Inr (sto_lto,
                       st1\<lparr>objs := (objs st1)(sto_lto := (objs st1 sto_lto)\<lparr>numbers := ns\<rparr>)\<rparr>)))"

text \<open>
  The invariant of an \<open>Atoms\<close> object the cell relies on: one position per atom, and
  every atomic number within the table of symbols.
\<close>

definition atoms_ok :: "atoms \<Rightarrow> bool" where
  "atoms_ok a \<longleftrightarrow>
     length (positions a) = length (numbers a) \<and> list_all (\<lambda>z. z < length chemical_symbols) (numbers a)"

text \<open>
  A small store for the examples: one object, five atoms. The second Sr atom sits
  exactly at \<open>y = 7.5\<close>.
\<close>

definition example_atoms :: atoms where
  "example_atoms =
     \<lparr>numbers = [38, 38, 38, 22, 8],
      positions = [(0, 0, 0), (0, 7.5, 0), (0, 9, 0), (1.95, 1.95, 1.95), (1.95, 1.95, 0)],
      cell = [(3.905, 0, 0), (0, 11.715, 0), (0, 0, 3.905)],
      pbc = [True, True, True]\<rparr>"

definition example_store :: store where
  "example_store =
     \<lparr>objs = (\<lambda>_. \<lparr>numbers = [], positions = [], cell = [], pbc = []\<rparr>)(0 := example_atoms),
      next_id = 1\<rparr>"

section \<open>The contrast inversion of the ABF image\<close>

text \<open>
  The cell of the Atomap notebook that inverts the contrast:
  \<^verbatim>\<open>
  data_abf_invert = 1 / s_abf.data
  \<close>
  \<open>s_abf.data\<close> is the two-dimensional array of pixels of the loaded image, a list of
  rows here. The division is the array library's elementwise true division, which is
  the division of binary floating-point arithmetic in the format of the array (an image
  of integers is first converted to binary64). That division is defined for every pair
  of operands and raises nothing: where there is no finite quotient it returns an
  infinity or a NaN (and the library prints a warning), and it rounds every other
  quotient to the nearest number of the format, ties to even.
\<close>

text \<open>
  A binary format: the number of significant bits and the largest exponent. The
  smallest exponent of a normal number is \<open>1 - emax\<close>.
\<close>

record format =
  precision :: nat
  emax :: int

definition binary64 :: format where
  "binary64 = \<lparr>precision = 53, emax = 1023\<rparr>"

definition binary32 :: format where
  "binary32 = \<lparr>precision = 24, emax = 127\<rparr>"

text \<open>
  A floating-point number: a finite nonzero number with its exact value, a signed zero,
  a signed infinity (the flag says negative), or a NaN.
\<close>

datatype fp = Finite rat | Zero bool | Infinity bool | NaN

text \<open>The exponent of the binade of a positive number: \<open>2^e \<le> a < 2^(e+1)\<close>.\<close>

definition floor_log2 :: "rat \<Rightarrow> int" where
  "floor_log2 a =
     (let (n, d) = quotient_of a; k = bitlen n - bitlen d
      in if of_int d * 2 powi k \<le> (of_int n :: rat) then k else k - 1)"

text \<open>The nearest integer, ties to the even one.\<close>

definition round_half_even :: "rat \<Rightarrow> int" where
  "round_half_even q =
     (let f = \<lfloor>q\<rfloor>; r = q - of_int f
      in if r < 1 / 2 then f
         else if 1 / 2 < r then f + 1
         else if even f then f else f + 1)"

text \<open>
  The unit in the last place at a nonzero number: the spacing of the numbers of the
  format in its binade, which below the normal range is the spacing of the subnormal
  numbers.
\<close>

definition ulp :: "format \<Rightarrow> rat \<Rightarrow> rat" where
  "ulp fmt q = 2 powi (max (floor_log2 \<bar>q\<bar>) (1 - emax fmt) - (int (precision fmt) - 1))"

text \<open>
  Rounding an exact value to the format: to the nearest multiple of the unit in the
  last place, ties to even; a magnitude that rounds to \<open>2^(emax+1)\<close> or more
  overflows to the infinity of its sign, one that rounds to nothing underflows to the
  zero of its sign.
\<close>

definition round_to :: "format \<Rightarrow> rat \<Rightarrow> fp" where
  "round_to fmt q =
     (if q = 0 then Zero False
      else let v = of_int (round_half_even (\<bar>q\<bar> / ulp fmt q)) * ulp fmt q
           in if 2 powi (emax fmt + 1) \<le> v then Infinity (q < 0)
              else if v = 0 then Zero (q < 0)
              else Finite (if q < 0 then - v else v))"

text \<open>The sign of a number (negative or not), as its flag.\<close>

fun negative :: "fp \<Rightarrow> bool" where
  "negative (Finite q) = (q < 0)"
| "negative (Zero s) = s"
| "negative (Infinity s) = s"
| "negative NaN = False"

fun is_zero :: "fp \<Rightarrow> bool" where
  "is_zero (Zero s) = True"
| "is_zero (Finite q) = (q = 0)"
| "is_zero x = False"

fun is_infinite :: "fp \<Rightarrow> bool" where
  "is_infinite (Infinity s) = True"
| "is_infinite x = False"

fun is_nan :: "fp \<Rightarrow> bool" where
  "is_nan NaN = True"
| "is_nan x = False"

fun value_of :: "fp \<Rightarrow> rat" where
  "value_of (Finite q) = q"
| "value_of x = 0"

text \<open>
  \<open>x / y\<close>: a NaN operand, zero by zero and infinity by infinity give NaN; a nonzero
  number by zero, and an infinity by a finite number, give the infinity of the sign of
  the quotient; zero by a nonzero number, and a finite number by an infinity, give the
  zero of that sign; two finite nonzero numbers give their exact quotient, rounded.
\<close>

definition true_divide :: "format \<Rightarrow> fp \<Rightarrow> fp \<Rightarrow> fp" where
  "true_divide fmt x y =
     (if is_nan x \<or> is_nan y then NaN
      else if is_zero x \<and> is_zero y then NaN
      else if is_infinite x \<and> is_infinite y then NaN
      else if is_zero y \<or> is_infinite x then Infinity (negative x \<noteq> negative y)
      else if is_zero x \<or> is_infinite y then Zero (negative x \<noteq> negative y)
      else round_to fmt (value_of x / value_of y))"

text \<open>The cell: the scalar \<open>1\<close> divided by every pixel.\<close>

definition data_abf_invert :: "format \<Rightarrow> fp list list \<Rightarrow> fp list list" where
  "data_abf_invert fmt s_abf_data = map (map (true_divide fmt (Finite 1))) s_abf_data"

text \<open>
  A number of the format: a zero, an infinity, a NaN, or a finite nonzero value that
  rounding leaves as it is.
\<close>

fun is_float :: "format \<Rightarrow> fp \<Rightarrow> bool" where
  "is_float fmt (Finite q) = (q \<noteq> 0 \<and> round_to fmt q = Finite q)"
| "is_float fmt x = True"

section \<open>The notebooks as documents\<close>

text \<open>
  The repository is two notebooks. Several statements about it are about what the cells
  contain, so the code cells are also kept as syntax: every code cell, in the order of
  the notebook, as the list of its top-level statements. Markdown cells hold no code and
  are left out.

  The syntax is the part of the language's abstract syntax the cells use, and the
  statements and expressions that would define something, branch, loop or handle an
  exception, so that their absence is a fact about the cells and not about the type.
  Numeric literals are kept as written. A keyword argument \<open>k=v\<close> stands in the
  argument list of its call as \<open>Keyword k v\<close>.
\<close>

datatype expr =
    Name string
  | Num string
  | Str string
  | BoolLit bool
  | Attribute expr string
  | Call expr "expr list"
  | Keyword string expr
  | Subscript expr expr
  | Slice
  | TupleLit "expr list"
  | ListLit "expr list"
  | BinOp expr string expr
  | UnaryOp string expr
  | Compare expr string expr
  | Lambda "string list" expr

datatype stmt =
    Magic string
  | Import string "string option"
  | ImportFrom string "string list"
  | FunctionDef string "string list" "stmt list"
  | ClassDef string "stmt list"
  | Assign expr expr
  | AugAssign expr string expr
  | Expr expr
  | Return expr
  | IfStmt expr "stmt list" "stmt list"
  | WhileStmt expr "stmt list"
  | ForStmt expr expr "stmt list"
  | TryStmt "stmt list" "stmt list" "stmt list"
  | WithStmt expr "stmt list"
  | RaiseStmt expr

subsection \<open>The Atomap notebook\<close>

text \<open>
  The 65 code cells of the Atomap tutorial notebook (the file \<^verbatim>\<open>unnamed/part_000\<close>).
\<close>

definition atomap_notebook :: "stmt list list" where
  "atomap_notebook =
    [[Magic ''matplotlib widget''],
     [Import ''hyperspy.api'' (Some ''hs'')],
     [Import ''atomap.api'' (Some ''am'')],
     [Assign (Name ''s'') (Call (Attribute (Name ''hs'') ''load'') [Str ''ADF_image.hspy''])],
     [Expr (Call (Attribute (Name ''s'') ''plot'') [])],
     [Assign (Name ''s_abf'') (Call (Attribute (Name ''hs'') ''load'') [Str ''ABF_image.hspy''])],
     [Expr (Call (Attribute (Name ''s_abf'') ''plot'') [])],
     [FunctionDef ''get_live_fft'' [''s'']
        [Assign (Name ''roi'')
           (Call (Attribute (Attribute (Name ''hs'') ''roi'') ''RectangularROI'') []),
         Expr (Call (Attribute (Name ''s'') ''plot'') []),
         Assign (Name ''s_roi'') (Call (Attribute (Name ''roi'') ''interactive'') [Name ''s'']),
         Assign (Name ''s_fft'')
           (Call (Attribute (Name ''hs'') ''interactive'')
              [Attribute (Name ''s_roi'') ''fft'', Keyword ''shift'' (BoolLit True)]),
         Expr
           (Call (Attribute (Name ''s_fft'') ''plot'')
              [Keyword ''power_spectrum'' (BoolLit True)]),
         Return (Name ''s_fft'')]],
     [Expr (Call (Name ''get_live_fft'') [Name ''s''])],
     [Assign (Name ''s_peaks'')
        (Call (Attribute (Name ''am'') ''get_feature_separation'')
           [Name ''s'', Keyword ''pca'' (BoolLit True)])],
     [Expr (Call (Attribute (Name ''s_peaks'') ''plot'') [])],
     [Assign (Name ''atom_positions'')
        (Call (Attribute (Name ''am'') ''get_atom_positions'')
           [Name ''s'', Keyword ''separation'' (Num ''12''), Keyword ''pca'' (BoolLit True)])],
     [Assign (Name ''sublattice_A'')
        (Call (Attribute (Name ''am'') ''Sublattice'')
           [Keyword ''atom_position_list'' (Name ''atom_positions''),
            Keyword ''image'' (Name ''s'')])],
     [Expr (Call (Attribute (Name ''sublattice_A'') ''plot'') [])],
     [Expr (Call (Attribute (Name ''sublattice_A'') ''find_nearest_neighbors'') [])],
     [Expr
        (Call (Attribute (Name ''sublattice_A'') ''refine_atom_positions_using_center_of_mass'')
           [])],
     [Expr
        (Call (Attribute (Name ''sublattice_A'') ''refine_atom_positions_using_2d_gaussian'') [])],
     [Expr (Call (Attribute (Name ''sublattice_A'') ''plot'') [])],
     [Expr (Call (Attribute (Name ''sublattice_A'') ''construct_zone_axes'') [])],
     [Expr (Call (Attribute (Name ''sublattice_A'') ''plot_planes'') [])],
     [Assign (Name ''monolayer_a'')
        (Call (Attribute (Name ''sublattice_A'') ''get_monolayer_distance_map'') [])],
     [Expr (Call (Attribute (Name ''monolayer_a'') ''plot'') [])],
     [Assign (Name ''zone_axis_111'')
        (Subscript (Attribute (Name ''sublattice_A'') ''zones_axis_average_distances'')
           (Num ''2''))],
     [Assign (Name ''interface_layer_111'')
        (Subscript
           (Subscript (Attribute (Name ''sublattice_A'') ''atom_planes_by_zone_vector'')
              (Name ''zone_axis_111''))
           (Num ''34''))],
     [Expr (Name ''interface_layer_111'')],
     [Assign (Name ''s_A_monolayer'')
        (Call (Attribute (Name ''sublattice_A'') ''get_monolayer_distance_line_profile'')
           [Keyword ''zone_vector'' (Name ''zone_axis_111''),
            Keyword ''atom_plane'' (Name ''interface_layer_111'')])],
     [Expr (Call (Attribute (Name ''s_A_monolayer'') ''plot'') [])],
     [Expr (Attribute (Attribute (Name ''s_A_monolayer'') ''metadata'') ''line_profile_data'')],
     [Assign (Name ''s_A_elli'')
        (Call (Attribute (Name ''sublattice_A'') ''get_ellipticity_map'') [])],
     [Expr (Call (Attribute (Name ''s_A_elli'') ''plot'') [])],
     [Assign (Name ''s_A_elli_line'')
        (Call (Attribute (Name ''sublattice_A'') ''get_ellipticity_line_profile'')
           [Name ''interface_layer_111''])],
     [Expr (Call (Attribute (Name ''s_A_elli_line'') ''plot'') [])],
     [Expr (Call (Attribute (Name ''sublattice_A'') ''plot_ellipticity_vectors'') [])],
     [Assign (Name ''data_abf_invert'')
        (BinOp (Num ''1'') ''/'' (Attribute (Name ''s_abf'') ''data''))],
     [Assign (Name ''initial_position_A'')
        (Attribute (Name ''sublattice_A'') ''atom_positions'')],
     [Assign (Name ''sublattice_A2'')
        (Call (Attribute (Name ''am'') ''Sublattice'')
           [Name ''initial_position_A'',
            Keyword ''image'' (Name ''data_abf_invert''),
            Keyword ''color'' (Str ''r''),
            Keyword ''name'' (Str ''A'')])],
     [Expr (Call (Attribute (Name ''sublattice_A2'') ''find_nearest_neighbors'') []),
      Expr
        (Call
           (Attribute (Name ''sublattice_A2'') ''refine_atom_positions_using_center_of_mass'')
           []),
      Expr
        (Call (Attribute (Name ''sublattice_A2'') ''refine_atom_positions_using_2d_gaussian'')
           []),
      Expr (Call (Attribute (Name ''sublattice_A2'') ''construct_zone_axes'') [])],
     [Expr (Call (Attribute (Name ''sublattice_A2'') ''plot'') [])],
     [ImportFrom ''atomap.tools'' [''remove_atoms_from_image_using_2d_gaussian'']],
     [Assign (Name ''image_without_A2'')
        (Call (Name ''remove_atoms_from_image_using_2d_gaussian'')
           [Attribute (Name ''sublattice_A2'') ''image'', Name ''sublattice_A2''])],
     [Expr (Call (Attribute (Name ''sublattice_A2'') ''plot_planes'') [])],
     [Assign (Name ''zone_axis_001'')
        (Subscript (Attribute (Name ''sublattice_A2'') ''zones_axis_average_distances'')
           (Num ''1'')),
      Expr (Name ''zone_axis_001'')],
     [Assign (Name ''initial_positions_B'')
        (Call (Attribute (Name ''sublattice_A2'') ''find_missing_atoms_from_zone_vector'')
           [Name ''zone_axis_001''])],
     [Assign (Name ''sublattice_B2'')
        (Call (Attribute (Name ''am'') ''Sublattice'')
           [Name ''initial_positions_B'',
            Keyword ''image'' (Name ''image_without_A2''),
            Keyword ''color'' (Str ''b''),
            Keyword ''name'' (Str ''B'')])],
     [Expr (Call (Attribute (Name ''sublattice_B2'') ''plot'') [])],
     [Expr (Call (Attribute (Name ''sublattice_B2'') ''find_nearest_neighbors'') []),
      Expr
        (Call
           (Attribute (Name ''sublattice_B2'') ''refine_atom_positions_using_center_of_mass'')
           []),
      Expr
        (Call (Attribute (Name ''sublattice_B2'') ''refine_atom_positions_using_2d_gaussian'')
           []),
      Expr (Call (Attribute (Name ''sublattice_B2'') ''construct_zone_axes'') [])],
     [Expr (Call (Attribute (Name ''sublattice_B2'') ''plot'') [])],
     [Expr (Call (Attribute (Name ''sublattice_B2'') ''plot_planes'') [])],
     [Assign (Name ''zone_axis_002'')
        (Subscript (Attribute (Name ''sublattice_B2'') ''zones_axis_average_distances'')
           (Num ''0'')),
      Assign (Name ''O_positions'')
        (Call (Attribute (Name ''sublattice_B2'') ''find_missing_atoms_from_zone_vector'')
           [Name ''zone_axis_002'']),
      Assign (Name ''image_without_AB'')
        (Call (Name ''remove_atoms_from_image_using_2d_gaussian'')
           [Attribute (Name ''sublattice_B2'') ''image'', Name ''sublattice_B2'']),
      Assign (Name ''sublattice_O'')
        (Call (Attribute (Name ''am'') ''Sublattice'')
           [Name ''O_positions'',
            Name ''image_without_AB'',
            Keyword ''color'' (Str ''g''),
            Keyword ''name'' (Str ''O'')])],
     [Expr (Call (Attribute (Name ''sublattice_O'') ''plot'') [])],
     [Expr (Call (Attribute (Name ''sublattice_O'') ''construct_zone_axes'') []),
      Expr
        (Call (Attribute (Name ''sublattice_O'') ''refine_atom_positions_using_center_of_mass'')
           []),
      Expr
        (Call (Attribute (Name ''sublattice_O'') ''refine_atom_positions_using_2d_gaussian'') [])],
     [Expr (Call (Attribute (Name ''sublattice_O'') ''plot'') [])],
     [Assign (Name ''atom_lattice'')
        (Call (Attribute (Name ''am'') ''Atom_Lattice'')
           [Keyword ''image'' (Attribute (Name ''s_abf'') ''data''),
            Keyword ''name'' (Str ''ABO3''),
            Keyword ''sublattice_list''
              (ListLit [Name ''sublattice_A2'', Name ''sublattice_B2'', Name ''sublattice_O''])])],
     [Expr (Call (Attribute (Name ''atom_lattice'') ''plot'') [])],
     [Expr
        (Call (Attribute (Name ''atom_lattice'') ''save'')
           [Keyword ''overwrite'' (BoolLit True)])],
     [Assign (Name ''atom_lattice2'')
        (Call (Attribute (Name ''am'') ''load_atom_lattice_from_hdf5'')
           [Str ''ABO3_atom_lattice.hdf5''])],
     [Assign (Name ''sublattice_A'')
        (Subscript (Attribute (Name ''atom_lattice2'') ''sublattice_list'') (Num ''0''))],
     [Assign (Name ''sublattice_O'')
        (Subscript (Attribute (Name ''atom_lattice2'') ''sublattice_list'') (Num ''2''))],
     [Assign (Name ''s_o_atom_difference'')
        (Call (Attribute (Name ''sublattice_O'') ''get_atom_distance_difference_map'')
           [Keyword ''add_zero_value_sublattice'' (Name ''sublattice_A'')])],
     [Expr (Call (Attribute (Name ''s_o_atom_difference'') ''plot'') [])],
     [Assign (Name ''atom_lattice'')
        (Call
           (Attribute (Attribute (Name ''am'') ''dummy_data'')
              ''get_polarization_film_atom_lattice'')
           []),
      Expr (Call (Attribute (Name ''atom_lattice'') ''plot'') [])],
     [Assign (Name ''sublatticeA'')
        (Subscript (Attribute (Name ''atom_lattice'') ''sublattice_list'') (Num ''0'')),
      Expr (Call (Attribute (Name ''sublatticeA'') ''construct_zone_axes'') [])],
     [Expr (Call (Attribute (Name ''sublatticeA'') ''plot_planes'') [])],
     [Assign (Name ''za0'')
        (Subscript (Attribute (Name ''sublatticeA'') ''zones_axis_average_distances'')
           (Num ''0'')),
      Assign (Name ''za1'')
        (Subscript (Attribute (Name ''sublatticeA'') ''zones_axis_average_distances'')
           (Num ''1'')),
      Assign (Name ''sublatticeB'')
        (Subscript (Attribute (Name ''atom_lattice'') ''sublattice_list'') (Num ''1'')),
      Assign (Name ''s_polarization'')
        (Call (Attribute (Name ''sublatticeA'') ''get_polarization_from_second_sublattice'')
           [Name ''za0'', Name ''za1'', Name ''sublatticeB''])],
     [Expr (Call (Attribute (Name ''s_polarization'') ''plot'') []),
      Assign (Name ''vector_list'')
        (Attribute (Attribute (Name ''s_polarization'') ''metadata'') ''vector_list'')]]"

subsection \<open>The abTEM notebook\<close>

text \<open>The 28 code cells of \<^verbatim>\<open>abTEM/atomic_models_with_ase.ipynb\<close>.\<close>

definition abtem_notebook :: "stmt list list" where
  "abtem_notebook =
    [[Magic ''matplotlib inline'',
      Import ''abtem'' None,
      Import ''ase'' None,
      Import ''matplotlib.pyplot'' (Some ''plt''),
      Import ''numpy'' (Some ''np''),
      ImportFrom ''ase.visualize'' [''view'']],
     [Assign (Name ''atoms'')
        (Call (Attribute (Name ''ase'') ''Atoms'')
           [Str ''N2'',
            Keyword ''positions''
              (ListLit
                 [TupleLit [Num ''0.0'', Num ''0.0'', Num ''0.0''],
                  TupleLit [Num ''1.0'', Num ''0.0'', Num ''0.0'']]),
            Keyword ''cell'' (ListLit [Num ''6'', Num ''6'', Num ''6''])])],
     [Expr (Attribute (Name ''atoms'') ''positions'')],
     [Expr (Attribute (Name ''atoms'') ''numbers'')],
     [Expr (Attribute (Name ''atoms'') ''cell'')],
     [Expr (Attribute (Name ''atoms'') ''cell'')],
     [Expr (Attribute (Name ''atoms'') ''numbers'')],
     [Assign (Subscript (Attribute (Name ''atoms'') ''numbers'') (Num ''0'')) (Num ''8'')],
     [AugAssign (Name ''atoms'') ''+''
        (Call (Attribute (Name ''ase'') ''Atoms'')
           [Str ''N'',
            Keyword ''positions'' (ListLit [TupleLit [Num ''2.0'', Num ''0'', Num ''0'']])]),
      Expr (Name ''atoms'')],
     [Expr
        (Call (Attribute (Name ''abtem'') ''show_atoms'')
           [Name ''atoms'', Keyword ''plane'' (Str ''xy'')])],
     [ImportFrom ''ase.visualize'' [''view''],
      Expr (Call (Name ''view'') [Name ''atoms''])],
     [Assign (Name ''atom_pos'')
        (ListLit
           [TupleLit [Num ''0.0'', Num ''0.0'', Num ''0.0''],
            TupleLit [Num ''0.5'', Num ''0.5'', Num ''0.5''],
            TupleLit [Num ''0.5'', Num ''0.5'', Num ''0.0'']]),
      Assign (Name ''srtio3'')
        (Call (Attribute (Attribute (Name ''ase'') ''spacegroup'') ''crystal'')
           [ListLit [Str ''Sr'', Str ''Ti'', Str ''O''],
            Name ''atom_pos'',
            Keyword ''spacegroup'' (Num ''221''),
            Keyword ''cellpar'' (Num ''3.905''),
            Keyword ''size'' (TupleLit [Num ''1'', Num ''1'', Num ''1''])]),
      Expr
        (Call (Attribute (Name ''abtem'') ''show_atoms'')
           [BinOp (Name ''srtio3'') ''*'' (TupleLit [Num ''3'', Num ''3'', Num ''3'']),
            Keyword ''legend'' (BoolLit True)])],
     [ImportFrom ''ase.build'' [''surface''],
      Assign (Name ''srtio3_110'')
        (Call (Name ''surface'')
           [Name ''srtio3'',
            Keyword ''indices'' (TupleLit [Num ''1'', Num ''1'', Num ''0'']),
            Keyword ''layers'' (Num ''2''),
            Keyword ''periodic'' (BoolLit True)]),
      Expr
        (Call (Attribute (Name ''abtem'') ''show_atoms'')
           [Name ''srtio3_110'',
            Keyword ''plane'' (Str ''xy''),
            Keyword ''legend'' (BoolLit True)])],
     [Expr (Call (Attribute (Name ''srtio3_110'') ''wrap'') []),
      Expr
        (Call (Attribute (Name ''abtem'') ''show_atoms'')
           [Name ''srtio3_110'',
            Keyword ''plane'' (Str ''xy''),
            Keyword ''legend'' (BoolLit True),
            Keyword ''show_periodic'' (BoolLit True)])],
     [Assign (Name ''repeated_srtio3'') (Call (Attribute (Name ''srtio3_110'') ''copy'') []),
      AugAssign (Name ''repeated_srtio3'') ''*'' (TupleLit [Num ''3'', Num ''4'', Num ''10'']),
      Expr
        (Call (Attribute (Name ''abtem'') ''show_atoms'')
           [Name ''repeated_srtio3'', Keyword ''legend'' (BoolLit True)])],
     [Expr
        (Call (Attribute (Name ''abtem'') ''show_atoms'')
           [Name ''repeated_srtio3'',
            Keyword ''legend'' (BoolLit True),
            Keyword ''plane'' (Str ''xz'')])],
     [Assign (Name ''sto_lto'') (Call (Attribute (Name ''repeated_srtio3'') ''copy'') []),
      Assign (Name ''mask'')
        (Compare (Attribute (Name ''sto_lto'') ''symbols'') ''=='' (Str ''Sr'')),
      Assign (Name ''mask'')
        (BinOp (Name ''mask'') ''*''
           (Compare
              (Subscript (Attribute (Name ''sto_lto'') ''positions'')
                 (TupleLit [Slice, Num ''1'']))
              ''<''
              (Num ''7.5''))),
      Assign (Subscript (Attribute (Name ''sto_lto'') ''numbers'') (Name ''mask'')) (Num ''57'')],
     [Expr
        (Call (Attribute (Name ''sto_lto'') ''center'')
           [Keyword ''axis'' (Num ''2''), Keyword ''vacuum'' (Num ''5'')]),
      Assign (TupleLit [Name ''fig'', TupleLit [Name ''ax1'', Name ''ax2'']])
        (Call (Attribute (Name ''plt'') ''subplots'')
           [Num ''1'', Num ''2'', Keyword ''figsize'' (TupleLit [Num ''8'', Num ''4''])]),
      Expr
        (Call (Attribute (Name ''abtem'') ''show_atoms'')
           [Name ''sto_lto'', Keyword ''ax'' (Name ''ax1'')]),
      Expr
        (Call (Attribute (Name ''abtem'') ''show_atoms'')
           [Name ''sto_lto'',
            Keyword ''ax'' (Name ''ax2''),
            Keyword ''plane'' (Str ''yz''),
            Keyword ''legend'' (BoolLit True)])],
     [ImportFrom ''ase.io'' [''write''],
      Expr (Call (Name ''write'') [Str ''sto_lto.cif'', Name ''sto_lto''])],
     [Assign (Name ''sto_lto'')
        (Call (Attribute (Attribute (Name ''ase'') ''io'') ''read'') [Str ''sto_lto.cif''])],
     [Assign (Name ''graphene'')
        (Call (Attribute (Attribute (Name ''ase'') ''build'') ''graphene'')
           [Keyword ''vacuum'' (Num ''4'')]),
      Expr
        (Call (Attribute (Name ''abtem'') ''show_atoms'')
           [BinOp (Name ''graphene'') ''*'' (TupleLit [Num ''4'', Num ''4'', Num ''1''])])],
     [Assign (TupleLit [Name ''orthogonal_graphene'', Name ''transform''])
        (Call (Attribute (Name ''abtem'') ''orthogonalize_cell'')
           [Name ''graphene'', Keyword ''return_transform'' (BoolLit True)]),
      Expr
        (Call (Attribute (Name ''abtem'') ''show_atoms'')
           [BinOp (Name ''orthogonal_graphene'') ''*''
              (TupleLit [Num ''5'', Num ''3'', Num ''1''])])],
     [ImportFrom ''abtem.atoms'' [''pretty_print_transform''],
      Expr (Call (Name ''pretty_print_transform'') [Name ''transform''])],
     [Expr
        (Call (Attribute (Name ''abtem'') ''show_atoms'')
           [Name ''srtio3'', Keyword ''plane'' (Str ''xz'')])],
     [Assign (Name ''repeated_srtio3'')
        (BinOp (Name ''srtio3'') ''*'' (TupleLit [Num ''1'', Num ''1'', Num ''8''])),
      Assign (TupleLit [Name ''fig'', TupleLit [Name ''ax1'', Name ''ax2'']])
        (Call (Attribute (Name ''plt'') ''subplots'')
           [Num ''1'', Num ''2'', Keyword ''figsize'' (TupleLit [Num ''6'', Num ''4''])]),
      Expr
        (Call (Attribute (Name ''abtem'') ''show_atoms'')
           [Name ''repeated_srtio3'',
            Keyword ''ax'' (Name ''ax1''),
            Keyword ''title'' (Str ''Beam view'')]),
      Expr
        (Call (Attribute (Name ''abtem'') ''show_atoms'')
           [Name ''repeated_srtio3'',
            Keyword ''ax'' (Name ''ax2''),
            Keyword ''plane'' (Str ''xz''),
            Keyword ''title'' (Str ''Side view'')]),
      Expr (Call (Attribute (Name ''fig'') ''tight_layout'') [])],
     [Assign (Name ''rotated_srtio3_1'')
        (Call (Attribute (Name ''repeated_srtio3'') ''copy'') []),
      Expr
        (Call (Attribute (Name ''rotated_srtio3_1'') ''rotate'')
           [BinOp (Num ''8.8'') ''/'' (Num ''2''),
            Str ''z'',
            Keyword ''rotate_cell'' (BoolLit True)]),
      Assign (Name ''rotated_srtio3_2'')
        (Call (Attribute (Name ''repeated_srtio3'') ''copy'') []),
      Expr
        (Call (Attribute (Name ''rotated_srtio3_2'') ''rotate'')
           [BinOp (UnaryOp ''-'' (Num ''8.8'')) ''/'' (Num ''2''),
            Str ''z'',
            Keyword ''rotate_cell'' (BoolLit True)]),
      Assign (TupleLit [Name ''fig'', TupleLit [Name ''ax1'', Name ''ax2'']])
        (Call (Attribute (Name ''plt'') ''subplots'')
           [Num ''1'', Num ''2'', Keyword ''figsize'' (TupleLit [Num ''10'', Num ''4''])]),
      Expr
        (Call (Attribute (Name ''abtem'') ''show_atoms'')
           [Name ''rotated_srtio3_1'',
            Keyword ''title'' (Str ''Positive rotation''),
            Keyword ''ax'' (Name ''ax1'')]),
      Expr
        (Call (Attribute (Name ''abtem'') ''show_atoms'')
           [Name ''rotated_srtio3_2'',
            Keyword ''title'' (Str ''Negative rotation''),
            Keyword ''ax'' (Name ''ax2'')])],
     [ImportFrom ''abtem.atoms'' [''pretty_print_transform''],
      Assign (Name ''maxreps'') (Num ''12''),
      Assign (TupleLit [Name ''atoms_top'', Name ''transform1''])
        (Call (Attribute (Name ''abtem'') ''orthogonalize_cell'')
           [Name ''rotated_srtio3_1'',
            Keyword ''max_repetitions'' (Name ''maxreps''),
            Keyword ''return_transform'' (BoolLit True)]),
      Assign (TupleLit [Name ''atoms'', Name ''transform2''])
        (Call (Attribute (Name ''abtem'') ''orthogonalize_cell'')
           [Name ''rotated_srtio3_2'',
            Keyword ''max_repetitions'' (Name ''maxreps''),
            Keyword ''return_transform'' (BoolLit True)]),
      Assign (Name ''atoms_bottom'') (Call (Attribute (Name ''atoms'') ''copy'') []),
      Expr
        (Call (Attribute (Name ''atoms_bottom'') ''translate'')
           [ListLit
              [Num ''0'',
               Num ''0'',
               UnaryOp ''-''
                 (Subscript (Attribute (Name ''atoms_top'') ''cell'')
                    (TupleLit [Num ''2'', Num ''2'']))]]),
      Expr (Call (Name ''pretty_print_transform'') [Name ''transform1'']),
      Expr (Call (Name ''pretty_print_transform'') [Name ''transform2'']),
      Expr
        (Call (Attribute (Name ''abtem'') ''show_atoms'')
           [Name ''atoms'',
            Keyword ''title'' (Str ''Beam view''),
            Keyword ''plane'' (Str ''xz'')])],
     [Assign (Name ''combined'') (BinOp (Name ''atoms_top'') ''+'' (Name ''atoms_bottom'')),
      AugAssign
        (Subscript (Attribute (Name ''combined'') ''cell'') (TupleLit [Num ''2'', Num ''2'']))
        ''*''
        (Num ''2''),
      Expr
        (Call (Attribute (Name ''combined'') ''center'')
           [Keyword ''axis'' (Num ''2''), Keyword ''vacuum'' (Num ''4'')]),
      Assign (TupleLit [Name ''fig'', TupleLit [Name ''ax1'', Name ''ax2'']])
        (Call (Attribute (Name ''plt'') ''subplots'')
           [Num ''1'', Num ''2'', Keyword ''figsize'' (TupleLit [Num ''12'', Num ''6''])]),
      Expr
        (Call (Attribute (Name ''abtem'') ''show_atoms'')
           [Name ''combined'',
            Keyword ''ax'' (Name ''ax1''),
            Keyword ''title'' (Str ''Beam view''),
            Keyword ''scale'' (Num ''0.4'')]),
      Expr
        (Call (Attribute (Name ''abtem'') ''show_atoms'')
           [Name ''combined'',
            Keyword ''ax'' (Name ''ax2''),
            Keyword ''plane'' (Str ''xz''),
            Keyword ''title'' (Str ''Side view''),
            Keyword ''scale'' (Num ''0.4'')]),
      Expr (Call (Attribute (Name ''fig'') ''tight_layout'') [])]]"

subsection \<open>Reading the syntax\<close>

text \<open>
  The expressions inside an expression (itself included) that satisfy a test, outermost
  first.
\<close>

definition keep :: "('a \<Rightarrow> bool) \<Rightarrow> 'a \<Rightarrow> 'a list \<Rightarrow> 'a list" where
  "keep P x xs = (if P x then x # xs else xs)"

fun exprs_in :: "(expr \<Rightarrow> bool) \<Rightarrow> expr \<Rightarrow> expr list" where
  "exprs_in P (Attribute e a) = keep P (Attribute e a) (exprs_in P e)"
| "exprs_in P (Call f args) =
     keep P (Call f args) (exprs_in P f @ concat (map (exprs_in P) args))"
| "exprs_in P (Keyword k e) = keep P (Keyword k e) (exprs_in P e)"
| "exprs_in P (Subscript e i) = keep P (Subscript e i) (exprs_in P e @ exprs_in P i)"
| "exprs_in P (TupleLit es) = keep P (TupleLit es) (concat (map (exprs_in P) es))"
| "exprs_in P (ListLit es) = keep P (ListLit es) (concat (map (exprs_in P) es))"
| "exprs_in P (BinOp a opr b) = keep P (BinOp a opr b) (exprs_in P a @ exprs_in P b)"
| "exprs_in P (UnaryOp opr a) = keep P (UnaryOp opr a) (exprs_in P a)"
| "exprs_in P (Compare a opr b) = keep P (Compare a opr b) (exprs_in P a @ exprs_in P b)"
| "exprs_in P (Lambda ps e) = keep P (Lambda ps e) (exprs_in P e)"
| "exprs_in P e = keep P e []"

text \<open>
  The statements inside a statement (itself included) that satisfy a test, in source
  order.
\<close>

fun stmts_in :: "(stmt \<Rightarrow> bool) \<Rightarrow> stmt \<Rightarrow> stmt list" where
  "stmts_in Q (FunctionDef f ps body) =
     keep Q (FunctionDef f ps body) (concat (map (stmts_in Q) body))"
| "stmts_in Q (ClassDef c body) = keep Q (ClassDef c body) (concat (map (stmts_in Q) body))"
| "stmts_in Q (IfStmt c a b) =
     keep Q (IfStmt c a b) (concat (map (stmts_in Q) a) @ concat (map (stmts_in Q) b))"
| "stmts_in Q (WhileStmt c body) = keep Q (WhileStmt c body) (concat (map (stmts_in Q) body))"
| "stmts_in Q (ForStmt t e body) = keep Q (ForStmt t e body) (concat (map (stmts_in Q) body))"
| "stmts_in Q (TryStmt body handlers final) =
     keep Q (TryStmt body handlers final)
       (concat (map (stmts_in Q) body) @ concat (map (stmts_in Q) handlers) @
        concat (map (stmts_in Q) final))"
| "stmts_in Q (WithStmt e body) = keep Q (WithStmt e body) (concat (map (stmts_in Q) body))"
| "stmts_in Q st = keep Q st []"

text \<open>The expressions of a statement, and of the statements nested in it, that satisfy a test.\<close>

fun exprs_of :: "(expr \<Rightarrow> bool) \<Rightarrow> stmt \<Rightarrow> expr list" where
  "exprs_of P (Assign t e) = exprs_in P t @ exprs_in P e"
| "exprs_of P (AugAssign t opr e) = exprs_in P t @ exprs_in P e"
| "exprs_of P (Expr e) = exprs_in P e"
| "exprs_of P (Return e) = exprs_in P e"
| "exprs_of P (RaiseStmt e) = exprs_in P e"
| "exprs_of P (FunctionDef f ps body) = concat (map (exprs_of P) body)"
| "exprs_of P (ClassDef c body) = concat (map (exprs_of P) body)"
| "exprs_of P (IfStmt c a b) =
     exprs_in P c @ concat (map (exprs_of P) a) @ concat (map (exprs_of P) b)"
| "exprs_of P (WhileStmt c body) = exprs_in P c @ concat (map (exprs_of P) body)"
| "exprs_of P (ForStmt t e body) =
     exprs_in P t @ exprs_in P e @ concat (map (exprs_of P) body)"
| "exprs_of P (TryStmt body handlers final) =
     concat (map (exprs_of P) body) @ concat (map (exprs_of P) handlers) @
     concat (map (exprs_of P) final)"
| "exprs_of P (WithStmt e body) = exprs_in P e @ concat (map (exprs_of P) body)"
| "exprs_of P st = []"

text \<open>Over a list of cells.\<close>

definition find_stmts :: "(stmt \<Rightarrow> bool) \<Rightarrow> stmt list list \<Rightarrow> stmt list" where
  "find_stmts Q nb = concat (map (stmts_in Q) (concat nb))"

definition find_exprs :: "(expr \<Rightarrow> bool) \<Rightarrow> stmt list list \<Rightarrow> expr list" where
  "find_exprs P nb = concat (map (exprs_of P) (concat nb))"

text \<open>The kinds of statement and expression the properties below speak of.\<close>

fun is_definition :: "stmt \<Rightarrow> bool" where
  "is_definition (FunctionDef f ps body) = True"
| "is_definition (ClassDef c body) = True"
| "is_definition st = False"



fun is_magic :: "stmt \<Rightarrow> bool" where
  "is_magic (Magic m) = True"
| "is_magic st = False"


fun defined_name :: "stmt \<Rightarrow> string" where
  "defined_name (FunctionDef f ps body) = f"
| "defined_name (ClassDef c body) = c"
| "defined_name st = []"

text \<open>The names a list of cells defines, as functions or classes.\<close>

definition defined_names :: "stmt list list \<Rightarrow> string list" where
  "defined_names nb = map defined_name (find_stmts is_definition nb)"

subsection \<open>Where the called things come from\<close>

text \<open>
  What a name of the notebook is bound to: the alias of an imported module (with the
  package the module belongs to), a name imported from a module of a package, a function
  defined in the notebook, a value obtained from a library, or a value written out in
  the cell.
\<close>

datatype binding = Module string | Imported string | LocalFun | LibObj | Plain

text \<open>The package of a dotted module name: the part before the first dot.\<close>

definition package_of :: "string \<Rightarrow> string" where
  "package_of m = takeWhile (\<lambda>c. c \<noteq> CHR ''.'') m"

text \<open>
  An expression whose value comes from a library: an imported name, a value obtained
  from a library before, an attribute, an element or the result of a call of such a
  value, or the result of an operator one of whose operands is such a value (the
  operator is then the library's own).
\<close>

fun from_library :: "(string \<times> binding) list \<Rightarrow> expr \<Rightarrow> bool" where
  "from_library env (Name x) =
     (case map_of env x of
        Some (Module p) \<Rightarrow> True
      | Some (Imported p) \<Rightarrow> True
      | Some LibObj \<Rightarrow> True
      | _ \<Rightarrow> False)"
| "from_library env (Attribute e a) = from_library env e"
| "from_library env (Call f args) = from_library env f"
| "from_library env (Subscript e i) = from_library env e"
| "from_library env (BinOp a opr b) = (from_library env a \<or> from_library env b)"
| "from_library env (UnaryOp opr a) = from_library env a"
| "from_library env (Compare a opr b) = (from_library env a \<or> from_library env b)"
| "from_library env e = False"

text \<open>A call of a function the notebook defines, with values from the libraries.\<close>

fun local_call :: "(string \<times> binding) list \<Rightarrow> expr \<Rightarrow> bool" where
  "local_call env (Call (Name g) args) =
     (map_of env g = Some LocalFun \<and> list_all (from_library env) args)"
| "local_call env e = False"

text \<open>
  What is out of order in an expression: a name that is not bound, a call that is
  neither a call into a library nor a call of a function of the notebook, and an
  expression that makes a function.
\<close>

fun out_of_order :: "(string \<times> binding) list \<Rightarrow> expr \<Rightarrow> bool" where
  "out_of_order env (Name x) = (map_of env x = None)"
| "out_of_order env (Call f args) = (\<not> from_library env f \<and> \<not> local_call env (Call f args))"
| "out_of_order env (Lambda ps e) = True"
| "out_of_order env e = False"

definition expr_ok :: "(string \<times> binding) list \<Rightarrow> expr \<Rightarrow> bool" where
  "expr_ok env e \<longleftrightarrow> exprs_in (out_of_order env) e = []"

text \<open>Binding the target of an assignment; a tuple target binds each of its names.\<close>

fun bind :: "binding \<Rightarrow> expr \<Rightarrow> (string \<times> binding) list \<Rightarrow> (string \<times> binding) list"
  and bind_all :: "binding \<Rightarrow> expr list \<Rightarrow> (string \<times> binding) list \<Rightarrow> (string \<times> binding) list"
  where
  "bind b (Name x) env = (x, b) # env"
| "bind b (TupleLit ts) env = bind_all b ts env"
| "bind b t env = env"
| "bind_all b [] env = env"
| "bind_all b (t # ts) env = bind_all b ts (bind b t env)"

text \<open>
  A target is in order when it is a name, a tuple of targets, or an attribute or element
  of something that is in order.
\<close>

fun target_ok :: "(string \<times> binding) list \<Rightarrow> expr \<Rightarrow> bool" where
  "target_ok env (Name x) = True"
| "target_ok env (TupleLit ts) = list_all (target_ok env) ts"
| "target_ok env t = expr_ok env t"

text \<open>The bindings after a statement.\<close>

fun after :: "(string \<times> binding) list \<Rightarrow> stmt \<Rightarrow> (string \<times> binding) list" where
  "after env (Import m None) = (package_of m, Module (package_of m)) # env"
| "after env (Import m (Some alias)) = (alias, Module (package_of m)) # env"
| "after env (ImportFrom m ns) = map (\<lambda>n. (n, Imported (package_of m))) ns @ env"
| "after env (FunctionDef f ps body) = (f, LocalFun) # env"
| "after env (Assign t e) = bind (if from_library env e then LibObj else Plain) t env"
| "after env st = env"

text \<open>
  A statement is in order when it is a magic, an import, an assignment, an augmented
  assignment or an expression statement whose expressions are in order, or the
  definition of a function whose body is a sequence of such statements closed by the
  return of an expression. The parameters of the function stand for values from the
  libraries (\<open>local_call\<close> asks each call to pass such values).
\<close>

fun simple_ok :: "(string \<times> binding) list \<Rightarrow> stmt \<Rightarrow> bool" where
  "simple_ok env (Magic m) = True"
| "simple_ok env (Import m alias) = True"
| "simple_ok env (ImportFrom m ns) = True"
| "simple_ok env (Assign t e) = (target_ok env t \<and> expr_ok env e)"
| "simple_ok env (AugAssign t opr e) = (expr_ok env t \<and> expr_ok env e)"
| "simple_ok env (Expr e) = expr_ok env e"
| "simple_ok env st = False"

fun body_ok :: "(string \<times> binding) list \<Rightarrow> stmt list \<Rightarrow> bool" where
  "body_ok env [] = False"
| "body_ok env [Return e] = expr_ok env e"
| "body_ok env (st # sts) = (simple_ok env st \<and> body_ok (after env st) sts)"

fun stmt_ok :: "(string \<times> binding) list \<Rightarrow> stmt \<Rightarrow> bool" where
  "stmt_ok env (FunctionDef f ps body) = body_ok (map (\<lambda>p. (p, LibObj)) ps @ env) body"
| "stmt_ok env st = simple_ok env st"

fun stmts_ok :: "(string \<times> binding) list \<Rightarrow> stmt list \<Rightarrow> bool" where
  "stmts_ok env [] = True"
| "stmts_ok env (st # sts) = (stmt_ok env st \<and> stmts_ok (after env st) sts)"

text \<open>A notebook is in order when its statements are, run from the top, cell by cell.\<close>

definition library_calls_only :: "stmt list list \<Rightarrow> bool" where
  "library_calls_only nb = stmts_ok [] (concat nb)"



text \<open>The package a statement imports from.\<close>

fun is_import :: "stmt \<Rightarrow> bool" where
  "is_import (Import m alias) = True"
| "is_import (ImportFrom m ns) = True"
| "is_import st = False"

fun imported_package :: "stmt \<Rightarrow> string" where
  "imported_package (Import m alias) = package_of m"
| "imported_package (ImportFrom m ns) = package_of m"
| "imported_package st = []"

text \<open>The packages a notebook imports, each once.\<close>

definition imported_packages :: "stmt list list \<Rightarrow> string list" where
  "imported_packages nb = remdups (map imported_package (find_stmts is_import nb))"

text \<open>The uses of a name: as a variable, and as the attribute of an object.\<close>

fun mentions :: "string \<Rightarrow> expr \<Rightarrow> bool" where
  "mentions n (Name x) = (x = n)"
| "mentions n (Attribute e a) = (a = n)"
| "mentions n e = False"

text \<open>The calls of a function or method of a given name.\<close>

fun calls_to :: "string \<Rightarrow> expr \<Rightarrow> bool" where
  "calls_to n (Call (Name x) args) = (x = n)"
| "calls_to n (Call (Attribute e a) args) = (a = n)"
| "calls_to n e = False"

text \<open>
  The statements that are, or assign, one call of a function or method of a given name:
  the call is then the whole of what the statement computes.
\<close>

fun is_call_of :: "string \<Rightarrow> stmt \<Rightarrow> bool" where
  "is_call_of n (Expr e) = calls_to n e"
| "is_call_of n (Assign t e) = calls_to n e"
| "is_call_of n st = False"

text \<open>
  The three components the specification names, with the packages that belong to each,
  read in the way most favourable to it: the signal library the column analysis is built
  on counts with the column analysis, and the structure library counts with the image
  simulation.
\<close>

datatype component = Column_analysis | Structure_and_simulation | Plotting

definition spec_component_of :: "string \<Rightarrow> component option" where
  "spec_component_of p =
     (if p = ''atomap'' \<or> p = ''hyperspy'' then Some Column_analysis
      else if p = ''abtem'' \<or> p = ''ase'' then Some Structure_and_simulation
      else if p = ''matplotlib'' then Some Plotting
      else None)"

subsection \<open>Running a cell\<close>



section \<open>Properties\<close>

subsection \<open>The interface cell\<close>

lemma distinct_chemical_symbols: "distinct chemical_symbols"
  unfolding chemical_symbols_def by simp

lemma length_chemical_symbols: "length chemical_symbols = 119"
  unfolding chemical_symbols_def by simp

lemma atomic_number_Sr: "atomic_number ''Sr'' = Some 38"
  unfolding atomic_number_def chemical_symbols_def by simp

lemma chemical_symbols_38: "chemical_symbols ! 38 = ''Sr''"
  unfolding chemical_symbols_def by simp

lemma symbol_of_Sr_iff:
  assumes "z < length chemical_symbols"
  shows "symbol_of z = ''Sr'' \<longleftrightarrow> z = 38"
proof
  assume "symbol_of z = ''Sr''"
  then have "chemical_symbols ! z = chemical_symbols ! 38"
    by (simp add: symbol_of_def chemical_symbols_38)
  moreover have "(38::nat) < length chemical_symbols"
    by (simp add: length_chemical_symbols)
  ultimately show "z = 38"
    using assms distinct_chemical_symbols nth_eq_iff_index_eq by blast
next
  assume "z = 38"
  then show "symbol_of z = ''Sr''"
    by (simp add: symbol_of_def chemical_symbols_38)
qed


lemma symbols_eq_Sr_nth:
  assumes "i < length (numbers a)"
  shows "symbols_eq a ''Sr'' ! i \<longleftrightarrow> numbers a ! i = 38"
  using assms by (auto simp add: symbols_eq_def atomic_number_Sr)

lemma np_mul_mask:
  assumes "length ps = length (numbers a)"
  shows "np_mul (symbols_eq a ''Sr'') (np_less (column1 ps) c) =
      Inr (map (\<lambda>(z, p). z = 38 \<and> fst (snd p) < c) (zip (numbers a) ps))"
  using assms
  by (auto simp add: np_mul_def symbols_eq_def np_less_def column1_def atomic_number_Sr
      list_eq_iff_nth_eq)

lemma setitem_mask_map:
  assumes "length ps = length zs"
  shows "setitem_mask zs (map (\<lambda>(z, p). P z p) (zip zs ps)) v =
      Inr (map (\<lambda>(z, p). if P z p then v else z) (zip zs ps))"
  using assms by (auto simp add: setitem_mask_def list_eq_iff_nth_eq)

lemma make_sto_lto_result:
  assumes "length (positions (objs st r)) = length (numbers (objs st r))"
  shows "make_sto_lto st r =
     Inr (next_id st,
          \<lparr>objs = (objs st)(next_id st := (objs st r)\<lparr>numbers :=
                     map (\<lambda>(z, p). if z = 38 \<and> fst (snd p) < 7.5 then 57 else z)
                       (zip (numbers (objs st r)) (positions (objs st r)))\<rparr>),
           next_id = Suc (next_id st)\<rparr>)"
  using assms
  by (simp add: make_sto_lto_def atoms_copy_def np_mul_mask setitem_mask_map)

text \<open>
  C10. When \<open>repeated_srtio3\<close> names a well-formed \<open>Atoms\<close> object, the cell
  succeeds and \<open>sto_lto\<close> names a new object. Its atomic number is 57 at exactly the
  atoms whose symbol was \<open>Sr\<close> and whose y-coordinate is strictly below 7.5, and is
  the old atomic number at every other atom; its positions, cell and periodicity are those
  of the original. The object \<open>repeated_srtio3\<close> names, and every other object of
  the store, is as it was before the cell.
\<close>

theorem make_sto_lto_frame:
  assumes ok: "atoms_ok (objs st repeated_srtio3)"
    and alloc: "repeated_srtio3 < next_id st"
  shows "\<exists>sto_lto st'.
     make_sto_lto st repeated_srtio3 = Inr (sto_lto, st') \<and>
     sto_lto \<noteq> repeated_srtio3 \<and>
     objs st' repeated_srtio3 = objs st repeated_srtio3 \<and>
     (\<forall>a. a \<noteq> sto_lto \<longrightarrow> objs st' a = objs st a) \<and>
     positions (objs st' sto_lto) = positions (objs st repeated_srtio3) \<and>
     cell (objs st' sto_lto) = cell (objs st repeated_srtio3) \<and>
     pbc (objs st' sto_lto) = pbc (objs st repeated_srtio3) \<and>
     length (numbers (objs st' sto_lto)) = length (numbers (objs st repeated_srtio3)) \<and>
     (\<forall>i < length (numbers (objs st repeated_srtio3)).
        numbers (objs st' sto_lto) ! i =
          (if symbol_of (numbers (objs st repeated_srtio3) ! i) = ''Sr'' \<and>
              fst (snd (positions (objs st repeated_srtio3) ! i)) < 7.5
           then 57 else numbers (objs st repeated_srtio3) ! i))"
proof -
  let ?a = "objs st repeated_srtio3"
  have len: "length (positions ?a) = length (numbers ?a)"
    and valid: "\<And>i. i < length (numbers ?a) \<Longrightarrow> numbers ?a ! i < length chemical_symbols"
    using ok by (simp_all add: atoms_ok_def list_all_length)
  have sr: "\<And>i. i < length (numbers ?a) \<Longrightarrow>
      (symbol_of (numbers ?a ! i) = ''Sr'') = (numbers ?a ! i = 38)"
    using valid by (simp add: symbol_of_Sr_iff)
  show ?thesis
    using alloc len sr by (simp add: make_sto_lto_result)
qed


theorem make_sto_lto_frame_witness:
  "atoms_ok (objs example_store 0) \<and> 0 < next_id example_store \<and>
   (\<exists>sto_lto st'. make_sto_lto example_store 0 = Inr (sto_lto, st') \<and>
      sto_lto = 1 \<and>
      numbers (objs st' sto_lto) = [57, 38, 38, 22, 8] \<and>
      numbers (objs st' 0) = [38, 38, 38, 22, 8])"
proof -
  have ok: "atoms_ok (objs example_store 0)"
    by (simp add: atoms_ok_def example_store_def example_atoms_def length_chemical_symbols)
  have alloc: "0 < next_id example_store"
    by (simp add: example_store_def)
  have sr: "symbol_of 38 = ''Sr''" "symbol_of 22 \<noteq> ''Sr''" "symbol_of 8 \<noteq> ''Sr''"
    by (simp_all add: symbol_of_def chemical_symbols_def)
  from make_sto_lto_frame [OF ok alloc]
  obtain a st' where r: "make_sto_lto example_store 0 = Inr (a, st')"
    and same: "objs st' 0 = objs example_store 0"
    and len: "length (numbers (objs st' a)) = length (numbers (objs example_store 0))"
    and nth: "\<forall>i < length (numbers (objs example_store 0)).
        numbers (objs st' a) ! i =
          (if symbol_of (numbers (objs example_store 0) ! i) = ''Sr'' \<and>
              fst (snd (positions (objs example_store 0) ! i)) < 7.5
           then 57 else numbers (objs example_store 0) ! i)"
    by blast
  have a: "a = 1"
    using r by (simp add: make_sto_lto_result example_store_def example_atoms_def)
  have l5: "length (numbers (objs st' a)) = 5"
    using len by (simp add: example_store_def example_atoms_def)
  have "numbers (objs st' a) ! 0 = 57" "numbers (objs st' a) ! 1 = 38"
    "numbers (objs st' a) ! 2 = 38" "numbers (objs st' a) ! 3 = 22"
    "numbers (objs st' a) ! 4 = 8"
    using nth sr by (simp_all add: example_store_def example_atoms_def)
  with l5 have "numbers (objs st' a) = [57, 38, 38, 22, 8]"
    by (simp add: list_eq_iff_nth_eq less_Suc_eq eval_nat_numeral)
  moreover have "numbers (objs st' 0) = [38, 38, 38, 22, 8]"
    using same by (simp add: example_store_def example_atoms_def)
  ultimately show ?thesis
    using ok alloc r a by simp
qed

subsection \<open>The contrast inversion\<close>

lemma round_half_even_near: "\<bar>of_int (round_half_even q) - q\<bar> \<le> 1 / 2"
  unfolding round_half_even_def Let_def
  by (auto simp: abs_if) linarith+

lemma round_half_even_nonneg: "0 \<le> q \<Longrightarrow> 0 \<le> round_half_even q"
  unfolding round_half_even_def Let_def by (auto simp: zero_le_floor) 

lemma ulp_pos: "0 < ulp fmt q"
  unfolding ulp_def by simp

lemma bitlen_powi_bounds:
  assumes "0 < n"
  shows "(2::rat) powi (bitlen n - 1) \<le> of_int n" and "(of_int n :: rat) < 2 powi bitlen n"
proof -
  from assms have b: "1 \<le> bitlen n"
    by (auto simp: bitlen_alt_def)
  from bitlen_bounds [OF assms] have "2 ^ nat (bitlen n - 1) \<le> n" and "n < 2 ^ nat (bitlen n)"
    by simp_all
  then have "(of_int (2 ^ nat (bitlen n - 1)) :: rat) \<le> of_int n"
    and "(of_int n :: rat) < of_int (2 ^ nat (bitlen n))"
    by (simp_all only: of_int_le_iff of_int_less_iff)
  with b show "(2::rat) powi (bitlen n - 1) \<le> of_int n" and "(of_int n :: rat) < 2 powi bitlen n"
    by (simp_all add: power_int_def)
qed

lemma floor_log2_bounds:
  assumes "0 < a"
  shows "2 powi floor_log2 a \<le> a \<and> a < 2 powi (floor_log2 a + 1)"
proof -
  obtain n d where nd: "quotient_of a = (n, d)"
    by (cases "quotient_of a")
  then have d: "0 < d" and a: "a = of_int n / of_int d"
    by (simp_all add: quotient_of_denom_pos quotient_of_div)
  with assms have n: "0 < n"
    by (simp add: zero_less_divide_iff)
  define k where "k = bitlen n - bitlen d"
  note bn = bitlen_powi_bounds [OF n] and bd = bitlen_powi_bounds [OF d]
  have dpos: "(0::rat) < of_int d"
    using d by simp
  have lower: "(2::rat) powi (k - 1) \<le> a"
  proof -
    have "(2::rat) powi (k - 1) * of_int d \<le> 2 powi (k - 1) * 2 powi bitlen d"
      using bd(2) by (intro mult_left_mono) simp_all
    also have "\<dots> = 2 powi (bitlen n - 1)"
      by (simp add: k_def flip: power_int_add)
    also have "\<dots> \<le> of_int n"
      by (rule bn(1))
    finally show ?thesis
      using dpos by (simp add: a pos_le_divide_eq)
  qed
  have upper: "a < (2::rat) powi (k + 1)"
  proof -
    have "(of_int n :: rat) < 2 powi bitlen n"
      by (rule bn(2))
    also have "\<dots> = 2 powi (k + 1) * 2 powi (bitlen d - 1)"
      by (simp add: k_def flip: power_int_add)
    also have "\<dots> \<le> 2 powi (k + 1) * of_int d"
      using bd(1) by (intro mult_left_mono) simp_all
    finally show ?thesis
      using dpos by (simp add: a pos_divide_less_eq)
  qed
  show ?thesis
  proof (cases "of_int d * 2 powi k \<le> (of_int n :: rat)")
    case True
    then have "floor_log2 a = k"
      by (simp add: floor_log2_def nd k_def)
    moreover from True dpos have "2 powi k \<le> a"
      by (simp add: a pos_le_divide_eq mult.commute)
    ultimately show ?thesis
      using upper by simp
  next
    case False
    then have "floor_log2 a = k - 1"
      by (simp add: floor_log2_def nd k_def)
    moreover from False dpos have "a < 2 powi k"
      by (simp add: a pos_divide_less_eq mult.commute not_le)
    ultimately show ?thesis
      using lower by simp
  qed
qed


lemma powi2_less_iff: "(2::rat) powi m < 2 powi n \<longleftrightarrow> m < n"
proof
  assume l: "(2::rat) powi m < 2 powi n"
  show "m < n"
  proof (rule ccontr)
    assume "\<not> m < n"
    then have "(2::rat) powi n \<le> 2 powi m"
      by (intro power_int_increasing) simp_all
    with l show False
      by simp
  qed
next
  assume "m < n"
  then show "(2::rat) powi m < 2 powi n"
    by (intro power_int_strict_increasing) simp_all
qed

lemma powi2_le_iff: "(2::rat) powi m \<le> 2 powi n \<longleftrightarrow> m \<le> n"
  using powi2_less_iff [of n m] by (auto simp: not_less [symmetric])

lemma round_to_near:
  assumes "round_to fmt q = Finite v"
  shows "\<bar>v - q\<bar> \<le> ulp fmt q / 2"
proof -
  define u where "u = ulp fmt q"
  define n where "n = round_half_even (\<bar>q\<bar> / u)"
  have u: "0 < u"
    by (simp add: u_def ulp_pos)
  from assms have q: "q \<noteq> 0"
    by (auto simp: round_to_def)
  from assms q have v: "v = (if q < 0 then - (of_int n * u) else of_int n * u)"
    by (auto simp: round_to_def Let_def u_def n_def split: if_splits)
  have "\<bar>of_int n - \<bar>q\<bar> / u\<bar> \<le> 1 / 2"
    unfolding n_def by (rule round_half_even_near)
  then have "\<bar>of_int n - \<bar>q\<bar> / u\<bar> * u \<le> 1 / 2 * u"
    using u by (intro mult_right_mono) simp_all
  moreover have "\<bar>of_int n - \<bar>q\<bar> / u\<bar> * u = \<bar>(of_int n - \<bar>q\<bar> / u) * u\<bar>"
    using u by (intro abs_mult_pos) simp
  moreover have "(of_int n - \<bar>q\<bar> / u) * u = of_int n * u - \<bar>q\<bar>"
    using u by (simp add: left_diff_distrib)
  ultimately have "\<bar>of_int n * u - \<bar>q\<bar>\<bar> \<le> u / 2"
    by simp
  then show ?thesis
    unfolding u_def [symmetric] v by (auto simp: abs_if split: if_splits)
qed

lemma ulp_normal:
  assumes "2 powi (1 - emax fmt) \<le> \<bar>q\<bar>"
  shows "ulp fmt q \<le> \<bar>q\<bar> * 2 powi (1 - int (precision fmt))"
proof -
  have "(0::rat) < 2 powi (1 - emax fmt)"
    by simp
  with assms have pos: "0 < \<bar>q\<bar>"
    by linarith
  note b = floor_log2_bounds [OF pos]
  have "(2::rat) powi (1 - emax fmt) < 2 powi (floor_log2 \<bar>q\<bar> + 1)"
    using assms b by linarith
  then have "1 - emax fmt < floor_log2 \<bar>q\<bar> + 1"
    by (simp only: powi2_less_iff)
  then have "max (floor_log2 \<bar>q\<bar>) (1 - emax fmt) = floor_log2 \<bar>q\<bar>"
    by simp
  then have "ulp fmt q = 2 powi (floor_log2 \<bar>q\<bar> + (1 - int (precision fmt)))"
    by (simp add: ulp_def algebra_simps)
  also have "\<dots> = 2 powi floor_log2 \<bar>q\<bar> * 2 powi (1 - int (precision fmt))"
    by (simp add: power_int_add)
  also have "\<dots> \<le> \<bar>q\<bar> * 2 powi (1 - int (precision fmt))"
    using b by (intro mult_right_mono) simp_all
  finally show ?thesis .
qed

lemma ulp_le_top:
  assumes "1 \<le> precision fmt" and "1 \<le> emax fmt" and "0 < \<bar>q\<bar>" and "\<bar>q\<bar> \<le> 2 powi emax fmt"
  shows "ulp fmt q \<le> 2 powi emax fmt"
proof -
  note b = floor_log2_bounds [OF assms(3)]
  from b assms(4) have "(2::rat) powi floor_log2 \<bar>q\<bar> \<le> 2 powi emax fmt"
    by linarith
  then have "floor_log2 \<bar>q\<bar> \<le> emax fmt"
    by (simp only: powi2_le_iff)
  with assms(1,2) have "max (floor_log2 \<bar>q\<bar>) (1 - emax fmt) - (int (precision fmt) - 1) \<le> emax fmt"
    by simp
  then show ?thesis
    unfolding ulp_def by (simp only: powi2_le_iff)
qed

lemma round_to_in_range:
  assumes fmt: "1 \<le> precision fmt" "1 \<le> emax fmt"
    and lo: "2 powi (1 - emax fmt) \<le> \<bar>q\<bar>" and hi: "\<bar>q\<bar> \<le> 2 powi emax fmt"
  shows "\<exists>v. round_to fmt q = Finite v \<and> \<bar>v - q\<bar> \<le> \<bar>q\<bar> * 2 powi (- int (precision fmt))"
proof -
  define u where "u = ulp fmt q"
  define n where "n = round_half_even (\<bar>q\<bar> / u)"
  have u: "0 < u"
    by (simp add: u_def ulp_pos)
  have "(0::rat) < 2 powi (1 - emax fmt)"
    by simp
  with lo have pos: "0 < \<bar>q\<bar>"
    by linarith
  then have q: "q \<noteq> 0"
    by auto
  have near: "\<bar>of_int n * u - \<bar>q\<bar>\<bar> \<le> u / 2"
  proof -
    have "\<bar>of_int n - \<bar>q\<bar> / u\<bar> \<le> 1 / 2"
      unfolding n_def by (rule round_half_even_near)
    then have "\<bar>of_int n - \<bar>q\<bar> / u\<bar> * u \<le> 1 / 2 * u"
      using u by (intro mult_right_mono) simp_all
    moreover have "\<bar>of_int n - \<bar>q\<bar> / u\<bar> * u = \<bar>(of_int n - \<bar>q\<bar> / u) * u\<bar>"
      using u by (intro abs_mult_pos) simp
    moreover have "(of_int n - \<bar>q\<bar> / u) * u = of_int n * u - \<bar>q\<bar>"
      using u by (simp add: left_diff_distrib)
    ultimately show ?thesis
      by simp
  qed
  have un: "u \<le> \<bar>q\<bar> * 2 powi (1 - int (precision fmt))"
    unfolding u_def using lo by (rule ulp_normal)
  have half: "(2::rat) powi (1 - int (precision fmt)) / 2 = 2 powi (- int (precision fmt))"
    by (simp add: power_int_diff power_int_minus field_simps)
  have p1: "(2::rat) powi (1 - int (precision fmt)) \<le> 1"
  proof -
    have "(2::rat) powi (1 - int (precision fmt)) \<le> 2 powi 0"
      using fmt(1) by (simp only: powi2_le_iff)
    then show ?thesis
      by simp
  qed
  have uq: "u \<le> \<bar>q\<bar>"
  proof -
    have "\<bar>q\<bar> * 2 powi (1 - int (precision fmt)) \<le> \<bar>q\<bar> * 1"
      using p1 by (intro mult_left_mono) simp_all
    with un show ?thesis
      by simp
  qed
  have ut: "u \<le> 2 powi emax fmt"
    unfolding u_def using fmt pos hi by (rule ulp_le_top)
  have top: "(2::rat) powi (emax fmt + 1) = 2 * 2 powi emax fmt"
    by (simp add: power_int_add)
  have vpos: "0 < of_int n * u"
    using near uq pos by linarith
  have vtop: "of_int n * u < 2 powi (emax fmt + 1)"
  proof -
    have "(0::rat) < 2 powi emax fmt"
      by simp
    with near ut hi show ?thesis
      unfolding top by linarith
  qed
  have r: "round_to fmt q = Finite (if q < 0 then - (of_int n * u) else of_int n * u)"
  proof -
    from vpos have "n \<noteq> 0" and "u \<noteq> 0"
      by auto
    with q vtop show ?thesis
      by (simp add: round_to_def Let_def u_def [symmetric] n_def [symmetric])
  qed
  have "\<bar>(if q < 0 then - (of_int n * u) else of_int n * u) - q\<bar> \<le> u / 2"
    using near by (auto simp: abs_if split: if_splits)
  also have "\<dots> \<le> \<bar>q\<bar> * 2 powi (1 - int (precision fmt)) / 2"
    using un by simp
  also have "\<dots> = \<bar>q\<bar> * 2 powi (- int (precision fmt))"
    using half by simp
  finally show ?thesis
    using r by blast
qed


lemma round_half_even_ge_floor: "\<lfloor>q\<rfloor> \<le> round_half_even q"
  unfolding round_half_even_def Let_def by simp

lemma round_to_overflow:
  assumes fmt: "1 \<le> precision fmt" "1 \<le> emax fmt"
    and big: "2 powi (emax fmt + 1) \<le> \<bar>q\<bar>"
  shows "round_to fmt q = Infinity (q < 0)"
proof -
  define u where "u = ulp fmt q"
  define n where "n = round_half_even (\<bar>q\<bar> / u)"
  define e where "e = floor_log2 \<bar>q\<bar>"
  have u: "0 < u"
    by (simp add: u_def ulp_pos)
  have "(0::rat) < 2 powi (emax fmt + 1)"
    by simp
  with big have pos: "0 < \<bar>q\<bar>"
    by linarith
  then have q: "q \<noteq> 0"
    by auto
  note b = floor_log2_bounds [OF pos, folded e_def]
  from b big have "(2::rat) powi (emax fmt + 1) < 2 powi (e + 1)"
    by linarith
  then have e: "emax fmt + 1 \<le> e"
    by (simp add: powi2_less_iff)
  with fmt have "max e (1 - emax fmt) = e"
    by simp
  then have ue: "u = 2 powi (e - (int (precision fmt) - 1))"
    by (simp add: u_def ulp_def e_def)
  have "(2::rat) powi e = 2 powi (int (precision fmt) - 1) * u"
    unfolding ue by (simp flip: power_int_add)
  also have "(2::rat) powi (int (precision fmt) - 1) = of_int (2 ^ (precision fmt - 1))"
    using fmt(1) by (simp add: power_int_def nat_diff_distrib)
  finally have grid: "(2::rat) powi e = of_int (2 ^ (precision fmt - 1)) * u" .
  have "of_int (2 ^ (precision fmt - 1)) \<le> \<bar>q\<bar> / u"
    using b u by (simp add: grid pos_le_divide_eq)
  then have "2 ^ (precision fmt - 1) \<le> \<lfloor>\<bar>q\<bar> / u\<rfloor>"
    by (simp only: le_floor_iff)
  also have "\<dots> \<le> n"
    unfolding n_def by (rule round_half_even_ge_floor)
  finally have "(of_int (2 ^ (precision fmt - 1)) :: rat) \<le> of_int n"
    by (simp only: of_int_le_iff)
  then have "of_int (2 ^ (precision fmt - 1)) * u \<le> of_int n * u"
    using u by (intro mult_right_mono) simp_all
  then have "(2::rat) powi e \<le> of_int n * u"
    by (simp only: grid)
  moreover have "(2::rat) powi (emax fmt + 1) \<le> 2 powi e"
    using e by (simp only: powi2_le_iff)
  ultimately have "2 powi (emax fmt + 1) \<le> of_int n * u"
    by linarith
  with q show ?thesis
    by (simp add: round_to_def Let_def u_def [symmetric] n_def [symmetric])
qed

lemma reciprocal_large:
  fixes x :: rat
  assumes "x \<noteq> 0" and "\<bar>x\<bar> \<le> 2 powi (- emax fmt - 1)"
  shows "2 powi (emax fmt + 1) \<le> \<bar>1 / x\<bar>"
proof -
  from assms(1) have pos: "0 < \<bar>x\<bar>"
    by simp
  have "1 / (2::rat) powi (- emax fmt - 1) \<le> 1 / \<bar>x\<bar>"
    using assms(2) pos by (intro divide_left_mono mult_pos_pos) simp_all
  moreover have "1 / (2::rat) powi (- emax fmt - 1) = 2 powi (emax fmt + 1)"
    using power_int_minus_divide [of "2::rat" "- emax fmt - 1"] by (simp add: add.commute)
  ultimately show ?thesis
    by simp
qed

lemma reciprocal_range:
  fixes x :: rat
  assumes "2 powi (- emax fmt) \<le> \<bar>x\<bar>" and "\<bar>x\<bar> \<le> 2 powi (emax fmt - 1)"
  shows "2 powi (1 - emax fmt) \<le> \<bar>1 / x\<bar>" and "\<bar>1 / x\<bar> \<le> 2 powi emax fmt"
proof -
  have "(0::rat) < 2 powi (- emax fmt)"
    by simp
  with assms(1) have pos: "0 < \<bar>x\<bar>"
    by linarith
  have "1 / (2::rat) powi (emax fmt - 1) \<le> 1 / \<bar>x\<bar>"
    using assms(2) pos by (intro divide_left_mono mult_pos_pos) simp_all
  moreover have "1 / (2::rat) powi (emax fmt - 1) = 2 powi (1 - emax fmt)"
    using power_int_minus_divide [of "2::rat" "emax fmt - 1"] by simp
  ultimately show "2 powi (1 - emax fmt) \<le> \<bar>1 / x\<bar>"
    by simp
  have "1 / \<bar>x\<bar> \<le> 1 / (2::rat) powi (- emax fmt)"
    using assms(1) pos by (intro divide_left_mono mult_pos_pos) simp_all
  moreover have "1 / (2::rat) powi (- emax fmt) = 2 powi emax fmt"
    using power_int_minus_divide [of "2::rat" "- emax fmt"] by simp
  ultimately show "\<bar>1 / x\<bar> \<le> 2 powi emax fmt"
    by simp
qed

lemma reciprocal_pixel:
  "true_divide fmt (Finite 1) NaN = NaN"
  "true_divide fmt (Finite 1) (Infinity s) = Zero s"
  "true_divide fmt (Finite 1) (Zero s) = Infinity s"
  "x \<noteq> 0 \<Longrightarrow> true_divide fmt (Finite 1) (Finite x) = round_to fmt (1 / x)"
  by (simp_all add: true_divide_def)

text \<open>
  C9, amended. The inversion is the elementwise floating-point reciprocal in the format
  of the array, and every image yields an array of its own shape: nothing is raised.
  At a zero pixel the result is the infinity of the sign of the pixel, at an infinite
  pixel the zero of its sign, at a NaN a NaN. At a finite nonzero pixel \<open>x\<close> it is
  \<open>1 / x\<close> rounded to the format: where that is finite, it is within half a unit in
  the last place of \<open>1 / x\<close>; for \<open>2^(-emax) \<le> |x| \<le> 2^(emax-1)\<close> it is finite and
  within the relative error \<open>2^(-precision)\<close> of \<open>1 / x\<close>; for
  \<open>|x| \<le> 2^(-emax-1)\<close> it overflows to the infinity of the sign of \<open>x\<close>.
\<close>

theorem data_abf_invert_elementwise:
  assumes "1 \<le> precision fmt" and "1 \<le> emax fmt"
  shows "length (data_abf_invert fmt d) = length d \<and>
    (\<forall>i < length d. length (data_abf_invert fmt d ! i) = length (d ! i) \<and>
      (\<forall>j < length (d ! i).
        (case d ! i ! j of
           NaN \<Rightarrow> data_abf_invert fmt d ! i ! j = NaN
         | Infinity s \<Rightarrow> data_abf_invert fmt d ! i ! j = Zero s
         | Zero s \<Rightarrow> data_abf_invert fmt d ! i ! j = Infinity s
         | Finite x \<Rightarrow>
             x \<noteq> 0 \<longrightarrow>
               data_abf_invert fmt d ! i ! j = round_to fmt (1 / x) \<and>
               (\<forall>v. round_to fmt (1 / x) = Finite v \<longrightarrow> \<bar>v - 1 / x\<bar> \<le> ulp fmt (1 / x) / 2) \<and>
               (2 powi (- emax fmt) \<le> \<bar>x\<bar> \<and> \<bar>x\<bar> \<le> 2 powi (emax fmt - 1) \<longrightarrow>
                  (\<exists>v. round_to fmt (1 / x) = Finite v \<and>
                       \<bar>v - 1 / x\<bar> \<le> \<bar>1 / x\<bar> * 2 powi (- int (precision fmt)))) \<and>
               (\<bar>x\<bar> \<le> 2 powi (- emax fmt - 1) \<longrightarrow> round_to fmt (1 / x) = Infinity (x < 0)))))"
proof (intro conjI allI impI)
  show "length (data_abf_invert fmt d) = length d"
    by (simp add: data_abf_invert_def)
next
  fix i assume "i < length d"
  then show "length (data_abf_invert fmt d ! i) = length (d ! i)"
    by (simp add: data_abf_invert_def)
next
  fix i j assume ij: "i < length d" "j < length (d ! i)"
  then have r: "data_abf_invert fmt d ! i ! j = true_divide fmt (Finite 1) (d ! i ! j)"
    by (simp add: data_abf_invert_def)
  show "case d ! i ! j of
           NaN \<Rightarrow> data_abf_invert fmt d ! i ! j = NaN
         | Infinity s \<Rightarrow> data_abf_invert fmt d ! i ! j = Zero s
         | Zero s \<Rightarrow> data_abf_invert fmt d ! i ! j = Infinity s
         | Finite x \<Rightarrow>
             x \<noteq> 0 \<longrightarrow>
               data_abf_invert fmt d ! i ! j = round_to fmt (1 / x) \<and>
               (\<forall>v. round_to fmt (1 / x) = Finite v \<longrightarrow> \<bar>v - 1 / x\<bar> \<le> ulp fmt (1 / x) / 2) \<and>
               (2 powi (- emax fmt) \<le> \<bar>x\<bar> \<and> \<bar>x\<bar> \<le> 2 powi (emax fmt - 1) \<longrightarrow>
                  (\<exists>v. round_to fmt (1 / x) = Finite v \<and>
                       \<bar>v - 1 / x\<bar> \<le> \<bar>1 / x\<bar> * 2 powi (- int (precision fmt)))) \<and>
               (\<bar>x\<bar> \<le> 2 powi (- emax fmt - 1) \<longrightarrow> round_to fmt (1 / x) = Infinity (x < 0))"
  proof (cases "d ! i ! j")
    case (Finite x)
    show ?thesis
      unfolding Finite fp.case r
    proof (intro impI conjI allI)
      assume "x \<noteq> 0"
      then show "true_divide fmt (Finite 1) (Finite x) = round_to fmt (1 / x)"
        by (rule reciprocal_pixel)
    next
      fix v assume "round_to fmt (1 / x) = Finite v"
      then show "\<bar>v - 1 / x\<bar> \<le> ulp fmt (1 / x) / 2"
        by (rule round_to_near)
    next
      assume "2 powi (- emax fmt) \<le> \<bar>x\<bar> \<and> \<bar>x\<bar> \<le> 2 powi (emax fmt - 1)"
      then have "2 powi (1 - emax fmt) \<le> \<bar>1 / x\<bar>" and "\<bar>1 / x\<bar> \<le> 2 powi emax fmt"
        using reciprocal_range [of fmt x] by simp_all
      with assms show "\<exists>v. round_to fmt (1 / x) = Finite v \<and>
          \<bar>v - 1 / x\<bar> \<le> \<bar>1 / x\<bar> * 2 powi (- int (precision fmt))"
        by (rule round_to_in_range)
    next
      assume "x \<noteq> 0" and "\<bar>x\<bar> \<le> 2 powi (- emax fmt - 1)"
      then have "2 powi (emax fmt + 1) \<le> \<bar>1 / x\<bar>"
        by (rule reciprocal_large)
      with assms have "round_to fmt (1 / x) = Infinity (1 / x < 0)"
        by (rule round_to_overflow)
      then show "round_to fmt (1 / x) = Infinity (x < 0)"
        by simp
    qed
  qed (simp_all add: r reciprocal_pixel)
qed


lemma binary64_format: "1 \<le> precision binary64" "1 \<le> emax binary64"
  by (simp_all add: binary64_def)

text \<open>
  C9, as stated, fails. The division has no error branch, and it is defined whether or
  not a pixel is zero: with a zero pixel the cell still yields an array, whose pixel
  there is an infinity. Nor does a nonzero pixel make the quotient the reciprocal: the
  reciprocal of the smallest positive binary64 number overflows to infinity.
\<close>

theorem zero_pixel_gives_infinity:
  "data_abf_invert binary64 [[Finite 1, Zero False]] = [[Finite 1, Infinity False]] \<and>
   data_abf_invert binary64 [[Finite (1 / 2 ^ 1074)]] = [[Infinity False]]"
proof
  show "data_abf_invert binary64 [[Finite 1, Zero False]] = [[Finite 1, Infinity False]]"
    by code_simp
  have "(2::rat) powi (emax binary64 + 1) \<le> \<bar>2 ^ 1074\<bar>"
    by (simp add: binary64_def)
  with binary64_format have "round_to binary64 (2 ^ 1074) = Infinity ((2 ^ 1074 :: rat) < 0)"
    by (rule round_to_overflow)
  then show "data_abf_invert binary64 [[Finite (1 / 2 ^ 1074)]] = [[Infinity False]]"
    by (simp add: data_abf_invert_def true_divide_def)
qed


lemma example_reciprocals:
  "data_abf_invert binary64 [[Finite 1, Finite 3], [Zero False, Finite (- 4)]] =
     [[Finite 1, Finite (6004799503160661 / 18014398509481984)],
      [Infinity False, Finite (- 1 / 4)]]"
  by code_simp

theorem data_abf_invert_elementwise_witness:
  "1 \<le> precision binary64 \<and> 1 \<le> emax binary64 \<and>
   0 < length [[Finite 1, Finite 3], [Zero False, Finite (- 4)]] \<and>
   1 < length ([[Finite 1, Finite 3], [Zero False, Finite (- 4)]] ! 0) \<and>
   [[Finite 1, Finite 3], [Zero False, Finite (- 4)]] ! 0 ! 1 = Finite 3 \<and>
   (3::rat) \<noteq> 0 \<and>
   2 powi (- emax binary64) \<le> \<bar>3::rat\<bar> \<and> \<bar>3::rat\<bar> \<le> 2 powi (emax binary64 - 1) \<and>
   data_abf_invert binary64 [[Finite 1, Finite 3], [Zero False, Finite (- 4)]] =
     [[Finite 1, Finite (6004799503160661 / 18014398509481984)],
      [Infinity False, Finite (- 1 / 4)]] \<and>
   round_to binary64 (1 / 3) = Finite (6004799503160661 / 18014398509481984) \<and>
   \<bar>6004799503160661 / 18014398509481984 - 1 / 3 :: rat\<bar> \<le> \<bar>1 / 3\<bar> * 2 powi (- int (precision binary64))"
proof -
  let ?d = "[[Finite 1, Finite 3], [Zero False, Finite (- 4)]]"
  have i: "0 < length ?d" and j: "1 < length (?d ! 0)" and px: "?d ! 0 ! 1 = Finite 3"
    by simp_all
  have lo: "2 powi (- emax binary64) \<le> \<bar>3::rat\<bar>"
    and hi: "\<bar>3::rat\<bar> \<le> 2 powi (emax binary64 - 1)"
    by (simp_all add: binary64_def power_int_minus field_simps)
  note t = data_abf_invert_elementwise [OF binary64_format, of ?d]
  note p = t [THEN conjunct2, rule_format, OF i, THEN conjunct2, rule_format, OF j]
  from p have r: "data_abf_invert binary64 ?d ! 0 ! 1 = round_to binary64 (1 / 3)"
    and b: "\<exists>v. round_to binary64 (1 / 3) = Finite v \<and>
          \<bar>v - 1 / 3\<bar> \<le> \<bar>1 / 3\<bar> * 2 powi (- int (precision binary64))"
    using lo hi unfolding px fp.case by simp_all
  from r have v: "round_to binary64 (1 / 3) = Finite (6004799503160661 / 18014398509481984)"
    by (simp add: example_reciprocals)
  from b obtain w where w: "round_to binary64 (1 / 3) = Finite w"
    and wb: "\<bar>w - 1 / 3\<bar> \<le> \<bar>1 / 3\<bar> * 2 powi (- int (precision binary64))"
    by blast
  from w v have "Finite w = Finite (6004799503160661 / 18014398509481984)"
    by (rule trans [OF sym])
  then have wc: "w = 6004799503160661 / 18014398509481984"
    by (rule fp.inject [THEN iffD1])
  from wb have bound: "\<bar>6004799503160661 / 18014398509481984 - 1 / 3 :: rat\<bar> \<le>
      \<bar>1 / 3\<bar> * 2 powi (- int (precision binary64))"
    unfolding wc .
  have nz: "(3::rat) \<noteq> 0"
    by simp
  from binary64_format i j px nz lo hi example_reciprocals v bound show ?thesis
    by (intro conjI)
qed

subsection \<open>The notebooks as documents\<close>

lemma atomap_library_calls_only: "library_calls_only atomap_notebook"
  by code_simp

lemma abtem_library_calls_only: "library_calls_only abtem_notebook"
  by code_simp




lemma only_definition: "defined_names (atomap_notebook @ abtem_notebook) = [''get_live_fft'']"
  by code_simp











text \<open>
  C5. The Gaussian refinement is called four times, the construction of zone axes five
  times and the orthogonalisation of a cell three times. Each of these calls is a call
  of a method of a sublattice object, or of \<open>abtem.orthogonalize_cell\<close>; each is the
  whole of its statement; the three names are mentioned nowhere else; none of them is
  defined in a cell; and, every call of the notebooks being a call into a library, no
  cell holds a part of these algorithms.
\<close>

theorem hard_operations_are_single_library_calls:
  "find_exprs (calls_to ''refine_atom_positions_using_2d_gaussian'')
       (atomap_notebook @ abtem_notebook) =
     [Call (Attribute (Name ''sublattice_A'') ''refine_atom_positions_using_2d_gaussian'') [],
      Call (Attribute (Name ''sublattice_A2'') ''refine_atom_positions_using_2d_gaussian'') [],
      Call (Attribute (Name ''sublattice_B2'') ''refine_atom_positions_using_2d_gaussian'') [],
      Call (Attribute (Name ''sublattice_O'') ''refine_atom_positions_using_2d_gaussian'') []] \<and>
   find_exprs (calls_to ''construct_zone_axes'') (atomap_notebook @ abtem_notebook) =
     [Call (Attribute (Name ''sublattice_A'') ''construct_zone_axes'') [],
      Call (Attribute (Name ''sublattice_A2'') ''construct_zone_axes'') [],
      Call (Attribute (Name ''sublattice_B2'') ''construct_zone_axes'') [],
      Call (Attribute (Name ''sublattice_O'') ''construct_zone_axes'') [],
      Call (Attribute (Name ''sublatticeA'') ''construct_zone_axes'') []] \<and>
   find_exprs (calls_to ''orthogonalize_cell'') (atomap_notebook @ abtem_notebook) =
     [Call (Attribute (Name ''abtem'') ''orthogonalize_cell'')
        [Name ''graphene'', Keyword ''return_transform'' (BoolLit True)],
      Call (Attribute (Name ''abtem'') ''orthogonalize_cell'')
        [Name ''rotated_srtio3_1'', Keyword ''max_repetitions'' (Name ''maxreps''),
         Keyword ''return_transform'' (BoolLit True)],
      Call (Attribute (Name ''abtem'') ''orthogonalize_cell'')
        [Name ''rotated_srtio3_2'', Keyword ''max_repetitions'' (Name ''maxreps''),
         Keyword ''return_transform'' (BoolLit True)]] \<and>
   map (\<lambda>n. (length (find_exprs (mentions n) (atomap_notebook @ abtem_notebook)),
              length (find_stmts (is_call_of n) (atomap_notebook @ abtem_notebook))))
       [''refine_atom_positions_using_2d_gaussian'', ''construct_zone_axes'',
        ''orthogonalize_cell''] =
     [(4, 4), (5, 5), (3, 3)] \<and>
   defined_names (atomap_notebook @ abtem_notebook) = [''get_live_fft''] \<and>
   library_calls_only atomap_notebook \<and>
   library_calls_only abtem_notebook"
proof (intro conjI)
  show "find_exprs (calls_to ''refine_atom_positions_using_2d_gaussian'')
       (atomap_notebook @ abtem_notebook) =
     [Call (Attribute (Name ''sublattice_A'') ''refine_atom_positions_using_2d_gaussian'') [],
      Call (Attribute (Name ''sublattice_A2'') ''refine_atom_positions_using_2d_gaussian'') [],
      Call (Attribute (Name ''sublattice_B2'') ''refine_atom_positions_using_2d_gaussian'') [],
      Call (Attribute (Name ''sublattice_O'') ''refine_atom_positions_using_2d_gaussian'') []]"
    by code_simp
  show "find_exprs (calls_to ''construct_zone_axes'') (atomap_notebook @ abtem_notebook) =
     [Call (Attribute (Name ''sublattice_A'') ''construct_zone_axes'') [],
      Call (Attribute (Name ''sublattice_A2'') ''construct_zone_axes'') [],
      Call (Attribute (Name ''sublattice_B2'') ''construct_zone_axes'') [],
      Call (Attribute (Name ''sublattice_O'') ''construct_zone_axes'') [],
      Call (Attribute (Name ''sublatticeA'') ''construct_zone_axes'') []]"
    by code_simp
  show "find_exprs (calls_to ''orthogonalize_cell'') (atomap_notebook @ abtem_notebook) =
     [Call (Attribute (Name ''abtem'') ''orthogonalize_cell'')
        [Name ''graphene'', Keyword ''return_transform'' (BoolLit True)],
      Call (Attribute (Name ''abtem'') ''orthogonalize_cell'')
        [Name ''rotated_srtio3_1'', Keyword ''max_repetitions'' (Name ''maxreps''),
         Keyword ''return_transform'' (BoolLit True)],
      Call (Attribute (Name ''abtem'') ''orthogonalize_cell'')
        [Name ''rotated_srtio3_2'', Keyword ''max_repetitions'' (Name ''maxreps''),
         Keyword ''return_transform'' (BoolLit True)]]"
    by code_simp
  show "map (\<lambda>n. (length (find_exprs (mentions n) (atomap_notebook @ abtem_notebook)),
              length (find_stmts (is_call_of n) (atomap_notebook @ abtem_notebook))))
       [''refine_atom_positions_using_2d_gaussian'', ''construct_zone_axes'',
        ''orthogonalize_cell''] =
     [(4, 4), (5, 5), (3, 3)]"
    by code_simp
  show "defined_names (atomap_notebook @ abtem_notebook) = [''get_live_fft'']"
    by (rule only_definition)
  show "library_calls_only atomap_notebook"
    by (rule atomap_library_calls_only)
  show "library_calls_only abtem_notebook"
    by (rule abtem_library_calls_only)
qed

text \<open>
  C6, as stated, fails: the abTEM notebook imports the array library \<open>numpy\<close>, which
  is none of the three components.
\<close>

theorem numpy_is_imported:
  "''numpy'' \<in> set (imported_packages abtem_notebook) \<and>
   spec_component_of ''numpy'' = None"
  by code_simp

text \<open>
  C6, amended. The notebooks import six packages: the Atomap notebook \<open>hyperspy\<close> and
  \<open>atomap\<close>, the abTEM notebook \<open>abtem\<close>, \<open>ase\<close>, \<open>matplotlib\<close> and
  \<open>numpy\<close>; both select the plotting backend by a magic. Five of the six belong to
  the three components; \<open>numpy\<close> does not, and its alias \<open>np\<close> is never used.
  Every call of either notebook is a call of an imported name, or of a value obtained
  from one (or the one call of \<open>get_live_fft\<close>).
\<close>

theorem six_packages_imported:
  "imported_packages atomap_notebook = [''hyperspy'', ''atomap''] \<and>
   imported_packages abtem_notebook = [''matplotlib'', ''numpy'', ''ase'', ''abtem''] \<and>
   find_stmts is_magic (atomap_notebook @ abtem_notebook) =
     [Magic ''matplotlib widget'', Magic ''matplotlib inline''] \<and>
   map spec_component_of [''hyperspy'', ''atomap'', ''matplotlib'', ''numpy'', ''ase'', ''abtem''] =
     [Some Column_analysis, Some Column_analysis, Some Plotting, None,
      Some Structure_and_simulation, Some Structure_and_simulation] \<and>
   find_exprs (mentions ''np'') (atomap_notebook @ abtem_notebook) = [] \<and>
   library_calls_only atomap_notebook \<and>
   library_calls_only abtem_notebook"
proof (intro conjI)
  show "imported_packages atomap_notebook = [''hyperspy'', ''atomap'']"
    by code_simp
  show "imported_packages abtem_notebook = [''matplotlib'', ''numpy'', ''ase'', ''abtem'']"
    by code_simp
  show "find_stmts is_magic (atomap_notebook @ abtem_notebook) =
     [Magic ''matplotlib widget'', Magic ''matplotlib inline'']"
    by code_simp
  show "map spec_component_of [''hyperspy'', ''atomap'', ''matplotlib'', ''numpy'', ''ase'', ''abtem''] =
     [Some Column_analysis, Some Column_analysis, Some Plotting, None,
      Some Structure_and_simulation, Some Structure_and_simulation]"
    by code_simp
  show "find_exprs (mentions ''np'') (atomap_notebook @ abtem_notebook) = []"
    by code_simp
  show "library_calls_only atomap_notebook"
    by (rule atomap_library_calls_only)
  show "library_calls_only abtem_notebook"
    by (rule abtem_library_calls_only)
qed

end
